theory Spec2Isabelle
  imports Main "HOL-Library.Multiset"
begin

section \<open>Strings\<close>

text \<open>
  A Python \<^verbatim>\<open>str\<close> is a sequence of code points, each below \<open>0x110000\<close>; a
  surrogate (\<open>0xD800\<close> to \<open>0xDFFF\<close>) is a code point like any other. Issue ids
  are written to the state file as JSON and read back, so they and the strings inside
  JSON values are kept as code points. Paths, transaction hashes and log formats are
  never encoded; they are plain \<open>string\<close>s. \<open>lit\<close> is the \<^verbatim>\<open>str\<close> of an ASCII
  literal.
\<close>

type_synonym pystr = "nat list"

definition lit :: "string \<Rightarrow> pystr" where
  "lit cs = map of_char cs"

definition valid_str :: "pystr \<Rightarrow> bool" where
  "valid_str s = list_all (\<lambda>c. c < 1114112) s"

definition is_high :: "nat \<Rightarrow> bool" where
  "is_high c = (55296 \<le> c \<and> c \<le> 56319)"

definition is_low :: "nat \<Rightarrow> bool" where
  "is_low c = (56320 \<le> c \<and> c \<le> 57343)"

text \<open>No high surrogate of the string is directly followed by a low surrogate.\<close>

fun no_split_pair :: "pystr \<Rightarrow> bool" where
  "no_split_pair [] = True"
| "no_split_pair [c] = True"
| "no_split_pair (h # l # s) = (\<not> (is_high h \<and> is_low l) \<and> no_split_pair (l # s))"

section \<open>Data model of the oracle service\<close>

text \<open>
  \<^verbatim>\<open>SchedulerResult\<close> of \<^verbatim>\<open>oracle/scheduler.py\<close>, what a cycle that submitted
  returns. It is declared first: two of its field names are field names of the records
  below as well, and written without a qualifier they mean the later records.
\<close>

record SchedulerResult =
  period_id :: int
  issue_id :: pystr
  tx_hash :: string

text \<open>
  \<^verbatim>\<open>oracle/types.py\<close>: the lifecycle stage of a period (an \<^verbatim>\<open>IntEnum\<close>) and the
  frozen dataclass holding one read of the on-chain period.
\<close>

datatype PeriodStatus = SELLING | CLOSED | RESULT_IN | SETTLED

record PeriodSnapshot =
  period_id :: int
  status :: PeriodStatus
  result_set :: bool
  winning_numbers :: "int list"
  ticket_count :: int

text \<open>
  \<^verbatim>\<open>oracle/datasource/base.py\<close>: the normalized draw. The \<^verbatim>\<open>datetime\<close> of the draw
  is kept as a POSIX timestamp; no function of the scheduler reads it.
\<close>

record DrawData =
  issue_id :: pystr
  draw_date :: int
  numbers :: "int list"

text \<open>
  \<^verbatim>\<open>DrawData.sorted_numbers\<close> is \<^verbatim>\<open>tuple(sorted(self.numbers))\<close>. Python's
  \<^verbatim>\<open>sorted\<close> returns the elements in non-decreasing order; on integers the result
  is the list computed by \<^const>\<open>sort\<close>.
\<close>

definition sorted_numbers :: "DrawData \<Rightarrow> int list" where
  "sorted_numbers draw = sort (numbers draw)"

text \<open>
  The exception classes that occur. \<^verbatim>\<open>except Exception\<close> in
  \<^verbatim>\<open>run_forever\<close> catches every class deriving from \<^verbatim>\<open>Exception\<close>; a cancelled
  task and a keyboard interrupt derive from \<^verbatim>\<open>BaseException\<close> only.
\<close>

datatype exn =
    ValueError
  | RuntimeError
  | AttributeError
  | UnicodeDecodeError
  | OSError
  | RecursionError
  | CancelledError
  | KeyboardInterrupt

fun is_Exception :: "exn \<Rightarrow> bool" where
  "is_Exception CancelledError = False"
| "is_Exception KeyboardInterrupt = False"
| "is_Exception _ = True"

text \<open>
  The Python value that \<^verbatim>\<open>json.loads\<close> produces. \<open>JNull\<close> is Python's \<^verbatim>\<open>None\<close>,
  \<open>JObject\<close> lists the items of a \<^verbatim>\<open>dict\<close> (its keys are distinct), a float is
  kept as its literal.
\<close>

datatype json =
    JNull
  | JBool bool
  | JInt int
  | JFloat string
  | JString pystr
  | JArray "json list"
  | JObject "(pystr \<times> json) list"

section \<open>JSON string literals\<close>

text \<open>
  The two functions of Python's \<^verbatim>\<open>json\<close> module through which an issue id passes.
  \<^verbatim>\<open>encode_basestring_ascii\<close> (of \<^verbatim>\<open>json.encoder\<close>, used by \<^verbatim>\<open>json.dumps\<close>)
  writes a \<^verbatim>\<open>str\<close> as an ASCII literal: the quote, the backslash and five control
  characters get their short escapes, the other characters from space to tilde stand
  for themselves, every other code point below \<open>0x10000\<close> becomes
  \<^verbatim>\<open>\uXXXX\<close> with four lower-case hexadecimal digits, and a code point from
  \<open>0x10000\<close> on becomes the two escapes of its surrogate pair.
  \<^verbatim>\<open>scanstring\<close> (of \<^verbatim>\<open>json.decoder\<close>, used by \<^verbatim>\<open>json.loads\<close>) reads the
  text after an opening quote up to the closing quote and returns the decoded
  \<^verbatim>\<open>str\<close> and the rest of the text, or fails (\<open>None\<close>, a
  \<^verbatim>\<open>JSONDecodeError\<close>): an escape of a high surrogate directly followed by an
  escape of a low surrogate is read as one code point.
\<close>

definition hexdigit :: "nat \<Rightarrow> nat" where
  "hexdigit d = (if d < 10 then 48 + d else 87 + d)"

definition hex4 :: "nat \<Rightarrow> pystr" where
  "hex4 n = [hexdigit (n div 4096 mod 16), hexdigit (n div 256 mod 16),
             hexdigit (n div 16 mod 16), hexdigit (n mod 16)]"

definition escape_ascii :: "nat \<Rightarrow> pystr" where
  "escape_ascii c =
     (if c = 92 then [92, 92]
      else if c = 34 then [92, 34]
      else if c = 8 then [92, 98]
      else if c = 12 then [92, 102]
      else if c = 10 then [92, 110]
      else if c = 13 then [92, 114]
      else if c = 9 then [92, 116]
      else if 32 \<le> c \<and> c \<le> 126 then [c]
      else if c < 65536 then [92, 117] @ hex4 c
      else (let n = c - 65536;
                s1 = 55296 + n div 1024 mod 1024;
                s2 = 56320 + n mod 1024
            in [92, 117] @ hex4 s1 @ [92, 117] @ hex4 s2))"

definition encode_basestring_ascii :: "pystr \<Rightarrow> pystr" where
  "encode_basestring_ascii s = [34] @ concat (map escape_ascii s) @ [34]"

definition hexval :: "nat \<Rightarrow> nat option" where
  "hexval c =
     (if 48 \<le> c \<and> c \<le> 57 then Some (c - 48)
      else if 97 \<le> c \<and> c \<le> 102 then Some (c - 87)
      else if 65 \<le> c \<and> c \<le> 70 then Some (c - 55)
      else None)"

fun decode_uXXXX :: "pystr \<Rightarrow> nat option" where
  "decode_uXXXX (a # b # c # d # rest) =
     (case (hexval a, hexval b, hexval c, hexval d) of
        (Some x, Some y, Some z, Some w) \<Rightarrow> Some (((x * 16 + y) * 16 + z) * 16 + w)
      | _ \<Rightarrow> None)"
| "decode_uXXXX _ = None"

definition backslash :: "nat \<Rightarrow> nat option" where
  "backslash esc =
     (if esc = 34 then Some 34
      else if esc = 92 then Some 92
      else if esc = 47 then Some 47
      else if esc = 98 then Some 8
      else if esc = 102 then Some 12
      else if esc = 110 then Some 10
      else if esc = 114 then Some 13
      else if esc = 116 then Some 9
      else None)"

fun append_char :: "nat \<Rightarrow> (pystr \<times> pystr) option \<Rightarrow> (pystr \<times> pystr) option" where
  "append_char c None = None"
| "append_char c (Some (chunks, rest)) = Some (c # chunks, rest)"

function scanstring :: "pystr \<Rightarrow> (pystr \<times> pystr) option" where
  "scanstring [] = None"
| "scanstring (c # s) =
     (if c = 34 then Some ([], s)
      else if c = 92 then
        (case s of
           [] \<Rightarrow> None
         | esc # s1 \<Rightarrow>
             if esc \<noteq> 117 then
               (case backslash esc of
                  None \<Rightarrow> None
                | Some char \<Rightarrow> append_char char (scanstring s1))
             else
               (case decode_uXXXX s1 of
                  None \<Rightarrow> None
                | Some uni \<Rightarrow>
                    if 55296 \<le> uni \<and> uni \<le> 56319 \<and> take 2 (drop 4 s1) = [92, 117] then
                      (case decode_uXXXX (drop 6 s1) of
                         None \<Rightarrow> None
                       | Some uni2 \<Rightarrow>
                           if 56320 \<le> uni2 \<and> uni2 \<le> 57343 then
                             append_char (65536 + ((uni - 55296) * 1024 + (uni2 - 56320)))
                               (scanstring (drop 10 s1))
                           else append_char uni (scanstring (drop 4 s1)))
                    else append_char uni (scanstring (drop 4 s1))))
      else if c < 32 then None
      else append_char c (scanstring s))"
  by pat_completeness auto
termination
  by (relation "measure length") auto

text \<open>\<^verbatim>\<open>json.loads\<close> on a text that is one string literal.\<close>

definition json_loads_str :: "pystr \<Rightarrow> pystr option" where
  "json_loads_str text =
     (case text of
        [] \<Rightarrow> None
      | c # s \<Rightarrow>
          if c = 34 then
            (case scanstring s of
               None \<Rightarrow> None
             | Some (v, rest) \<Rightarrow> if rest = [] then Some v else None)
          else None)"

text \<open>
  What is on disk at a path, as \<^verbatim>\<open>Path.exists\<close>, \<^verbatim>\<open>Path.read_text\<close> and
  \<^verbatim>\<open>json.loads\<close> see it: no file; a file that cannot be read (\<^verbatim>\<open>read_text\<close>
  raises \<^verbatim>\<open>OSError\<close>); bytes that are not UTF-8 (\<^verbatim>\<open>read_text\<close> raises
  \<^verbatim>\<open>UnicodeDecodeError\<close>); text that is not JSON (\<^verbatim>\<open>json.loads\<close> raises
  \<^verbatim>\<open>JSONDecodeError\<close>); JSON text with an integer literal of more digits than
  the interpreter converts (\<^verbatim>\<open>json.loads\<close> raises \<^verbatim>\<open>ValueError\<close>); JSON text
  nested deeper than the interpreter recurses (\<^verbatim>\<open>json.loads\<close> raises
  \<^verbatim>\<open>RecursionError\<close>); or the text of a JSON document that \<^verbatim>\<open>json.loads\<close>
  decodes, given by the value it decodes to. The file system maps each path to one of
  these.
\<close>

datatype file_state =
    Missing
  | Unreadable
  | NotUtf8
  | NotJson
  | HugeInteger
  | TooDeep
  | Document json

type_synonym filesystem = "string \<Rightarrow> file_state"

section \<open>The state store\<close>

record OracleStateStore =
  path :: string

definition OracleStateStore_init :: "string \<Rightarrow> OracleStateStore" where
  "OracleStateStore_init p = \<lparr>path = p\<rparr>"

text \<open>
  \<^verbatim>\<open>data.get("last_issue_id")\<close>: on a \<^verbatim>\<open>dict\<close> the value under the key, or
  \<^verbatim>\<open>None\<close>; every other decoded value (\<^verbatim>\<open>None\<close>, \<^verbatim>\<open>bool\<close>, \<^verbatim>\<open>int\<close>,
  \<^verbatim>\<open>float\<close>, \<^verbatim>\<open>str\<close>, \<^verbatim>\<open>list\<close>) has no attribute \<^verbatim>\<open>get\<close>.
\<close>

fun json_get :: "json \<Rightarrow> pystr \<Rightarrow> exn + json" where
  "json_get (JObject items) key =
     (case map_of items key of None \<Rightarrow> Inr JNull | Some v \<Rightarrow> Inr v)"
| "json_get _ key = Inl AttributeError"

text \<open>
  \<^verbatim>\<open>load_last_issue\<close>: only \<^verbatim>\<open>json.JSONDecodeError\<close> is caught; every
  other exception of \<^verbatim>\<open>read_text\<close>, of \<^verbatim>\<open>json.loads\<close> and of
  \<^verbatim>\<open>data.get\<close> leaves the method. The result is any decoded value, \<open>JNull\<close> for
  \<^verbatim>\<open>None\<close>.
\<close>

definition load_last_issue :: "OracleStateStore \<Rightarrow> filesystem \<Rightarrow> exn + json" where
  "load_last_issue store fs =
     (case fs (path store) of
        Missing \<Rightarrow> Inr JNull
      | Unreadable \<Rightarrow> Inl OSError
      | NotUtf8 \<Rightarrow> Inl UnicodeDecodeError
      | NotJson \<Rightarrow> Inr JNull
      | HugeInteger \<Rightarrow> Inl ValueError
      | TooDeep \<Rightarrow> Inl RecursionError
      | Document data \<Rightarrow> json_get data (lit ''last_issue_id''))"

text \<open>
  \<^verbatim>\<open>save_last_issue\<close> writes \<^verbatim>\<open>json.dumps({"last_issue_id": issue_id})\<close> with
  \<^verbatim>\<open>Path.write_text\<close>. The text is \<^verbatim>\<open>{"last_issue_id": \<close> followed by the
  literal that \<^verbatim>\<open>encode_basestring_ascii\<close> makes of the issue id and by
  \<^verbatim>\<open>}\<close>; it is ASCII, so every encoding writes it. \<open>written\<close> is what a later
  \<^verbatim>\<open>json.loads\<close> makes of that text: the object whose one key is the ASCII key as
  written and whose value is what \<^verbatim>\<open>scanstring\<close> reads from the literal. The disk
  decides whether the write succeeds: \<open>Written\<close>, or \<open>WriteFailed residue\<close> when
  \<^verbatim>\<open>write_text\<close> raises \<^verbatim>\<open>OSError\<close> and leaves \<open>residue\<close> at the path (the
  file is opened for writing, hence truncated, before the text is written).
\<close>

datatype write_outcome = Written | WriteFailed file_state

definition save_last_issue ::
  "OracleStateStore \<Rightarrow> pystr \<Rightarrow> write_outcome \<Rightarrow> filesystem \<Rightarrow> (exn + unit) \<times> filesystem" where
  "save_last_issue store issue disk fs =
     (let written =
            (case json_loads_str (encode_basestring_ascii issue) of
               None \<Rightarrow> NotJson
             | Some v \<Rightarrow> Document (JObject [(lit ''last_issue_id'', JString v)]))
      in case disk of
           Written \<Rightarrow> (Inr (), fs(path store := written))
         | WriteFailed residue \<Rightarrow> (Inl OSError, fs(path store := residue)))"

section \<open>The collaborators of the scheduler\<close>

text \<open>
  What the scheduler does to the outside, in the order it does it: the calls on the data
  source and on the client, the raw transaction the production client sends, the write of
  the state file, the sleep between two cycles, and each log record (its level and its
  format string).
\<close>

datatype level = DEBUG | INFO | ERROR

datatype event =
    FetchLatest
  | GetCurrentPeriod
  | SubmitResult int "int list"
  | Broadcast int "int list"
  | WriteText string
  | Close
  | Sleep int
  | Log level string

text \<open>
  What the collaborators answer during one cycle. \<^verbatim>\<open>fetch_latest\<close> and
  \<^verbatim>\<open>get_current_period\<close> return a value or raise; \<^verbatim>\<open>submit_result\<close> is a
  function of the arguments it is called with, and its answer comes with the
  transactions (period id and numbers) that the client sent to the chain to produce it;
  \<open>write_text\<close> is the disk's answer to a write of the state file; \<open>close\<close> and
  \<open>sleep\<close> name the exception that \<^verbatim>\<open>datasource.close()\<close> and
  \<^verbatim>\<open>asyncio.sleep\<close> raise, if any.
\<close>

record collaborators =
  fetch_latest :: "exn + DrawData"
  get_current_period :: "exn + PeriodSnapshot"
  submit_result :: "int \<Rightarrow> int list \<Rightarrow> (int \<times> int list) list \<times> (exn + string)"
  write_text :: write_outcome
  close :: "exn option"
  sleep :: "exn option"

text \<open>
  \<^verbatim>\<open>LotteryClient.submit_result\<close> of \<^verbatim>\<open>oracle/lottery_client.py\<close>, the production
  chain writer. \<open>sync_submit_result\<close> stands for \<^verbatim>\<open>_sync_submit_result\<close>, which
  builds, signs and sends the transaction and waits for its receipt: it answers with a
  transaction hash or raises, having sent what it sent. \<^verbatim>\<open>int(n)\<close> is the
  identity on the integers of the list.
\<close>

definition LotteryClient_submit_result ::
  "(int \<Rightarrow> int list \<Rightarrow> (int \<times> int list) list \<times> (exn + string)) \<Rightarrow>
     int \<Rightarrow> int list \<Rightarrow> (int \<times> int list) list \<times> (exn + string)" where
  "LotteryClient_submit_result sync_submit_result pid nums =
     (let sorted_numbers = sort nums in
      if length sorted_numbers \<noteq> 6 then ([], Inl ValueError)
      else sync_submit_result pid sorted_numbers)"

text \<open>
  \<^verbatim>\<open>FakeClient.submit_result\<close> of \<^verbatim>\<open>oracle/tests/test_scheduler.py\<close> sends
  nothing and returns its fixed hash.
\<close>

definition FakeClient_submit_result ::
  "string \<Rightarrow> int \<Rightarrow> int list \<Rightarrow> (int \<times> int list) list \<times> (exn + string)" where
  "FakeClient_submit_result tx pid nums = ([], Inr tx)"

section \<open>The scheduler\<close>

text \<open>The fields of \<^verbatim>\<open>OracleSettings\<close> that the scheduler reads.\<close>

record OracleSettings =
  poll_interval_seconds :: int
  submit_only_once :: bool
  state_file :: string

text \<open>
  The scheduler object: its settings, its state store and the cached
  \<^verbatim>\<open>_last_issue_id\<close>, which is whatever \<^verbatim>\<open>load_last_issue\<close> returned at
  construction (\<open>JNull\<close> for \<^verbatim>\<open>None\<close>) and later the issue id of the last submission.
\<close>

record OracleScheduler =
  settings :: OracleSettings
  state :: OracleStateStore
  last_issue_id :: json

definition OracleScheduler_init :: "OracleSettings \<Rightarrow> filesystem \<Rightarrow> exn + OracleScheduler" where
  "OracleScheduler_init cfg fs =
     (let st = OracleStateStore_init (state_file cfg) in
      case load_last_issue st fs of
        Inl exc \<Rightarrow> Inl exc
      | Inr v \<Rightarrow> Inr \<lparr>settings = cfg, state = st, last_issue_id = v\<rparr>)"

text \<open>
  What a method of the scheduler leaves behind: the value it returned or the exception it
  raised, the scheduler object and the file system after the call, and what it did.
\<close>

record 'a outcome =
  result :: "exn + 'a"
  self :: OracleScheduler
  files :: filesystem
  events :: "event list"

fun broadcast_event :: "int \<times> int list \<Rightarrow> event" where
  "broadcast_event (pid, nums) = Broadcast pid nums"

text \<open>
  \<^verbatim>\<open>_attempt_submission\<close>, one cycle. The branches are those of the source, in its
  order. \<^verbatim>\<open>self._last_issue_id == draw.issue_id\<close> compares a decoded value with a
  \<^verbatim>\<open>str\<close>: it holds for the equal string only.
\<close>

definition attempt_submission ::
  "collaborators \<Rightarrow> OracleScheduler \<Rightarrow> filesystem \<Rightarrow> SchedulerResult option outcome" where
  "attempt_submission c s fs =
     (case fetch_latest c of
        Inl exc \<Rightarrow> \<lparr>result = Inl exc, self = s, files = fs, events = [FetchLatest]\<rparr>
      | Inr draw \<Rightarrow>
          if last_issue_id s = JString (issue_id draw) then
            \<lparr>result = Inr None, self = s, files = fs,
             events = [FetchLatest, Log DEBUG ''Issue %s already submitted; skipping.'']\<rparr>
          else
            (case get_current_period c of
               Inl exc \<Rightarrow>
                 \<lparr>result = Inl exc, self = s, files = fs,
                  events = [FetchLatest, GetCurrentPeriod]\<rparr>
             | Inr period_snapshot \<Rightarrow>
                 if status period_snapshot \<noteq> CLOSED then
                   \<lparr>result = Inr None, self = s, files = fs,
                    events = [FetchLatest, GetCurrentPeriod,
                      Log INFO ''Current period %s not closed yet (status=%s); waiting.'']\<rparr>
                 else if result_set period_snapshot then
                   \<lparr>result = Inr None, self = s, files = fs,
                    events = [FetchLatest, GetCurrentPeriod,
                      Log INFO ''Period %s already has results on-chain; skipping.'']\<rparr>
                 else
                   (let sorted_nums = sorted_numbers draw;
                        pid = period_id period_snapshot;
                        before = [FetchLatest, GetCurrentPeriod,
                          Log INFO ''Submitting oracle result for period %s issue %s -> %s'',
                          SubmitResult pid sorted_nums]
                    in case submit_result c pid sorted_nums of
                         (sent, Inl exc) \<Rightarrow>
                           \<lparr>result = Inl exc, self = s, files = fs,
                            events = before @ map broadcast_event sent\<rparr>
                       | (sent, Inr tx) \<Rightarrow>
                           (let s' = s\<lparr>last_issue_id := JString (issue_id draw)\<rparr>;
                                after = before @ map broadcast_event sent @
                                  [Log INFO ''submitResult broadcast: %s'',
                                   WriteText (path (state s'))]
                            in case save_last_issue (state s') (issue_id draw) (write_text c) fs of
                                 (Inl exc, fs') \<Rightarrow>
                                   \<lparr>result = Inl exc, self = s', files = fs', events = after\<rparr>
                               | (Inr u, fs') \<Rightarrow>
                                   \<lparr>result = Inr (Some \<lparr>SchedulerResult.period_id = pid,
                                      SchedulerResult.issue_id = issue_id draw, tx_hash = tx\<rparr>),
                                    self = s', files = fs', events = after\<rparr>))))"

text \<open>
  \<^verbatim>\<open>run_once\<close>: one cycle, then \<^verbatim>\<open>datasource.close()\<close> in the
  \<^verbatim>\<open>finally\<close> clause, whatever the cycle did. An exception raised by
  \<^verbatim>\<open>close\<close> replaces the cycle's return value or exception.
\<close>

definition run_once ::
  "collaborators \<Rightarrow> OracleScheduler \<Rightarrow> filesystem \<Rightarrow> SchedulerResult option outcome" where
  "run_once c s fs =
     (let r = attempt_submission c s fs in
      case close c of
        None \<Rightarrow> r\<lparr>events := events r @ [Close]\<rparr>
      | Some exc \<Rightarrow> r\<lparr>result := Inl exc, events := events r @ [Close]\<rparr>)"

text \<open>
  The truth value of what \<^verbatim>\<open>_attempt_submission\<close> returned: \<^verbatim>\<open>None\<close> is false, and
  a \<^verbatim>\<open>SchedulerResult\<close> (a dataclass that defines neither \<^verbatim>\<open>__bool__\<close> nor
  \<^verbatim>\<open>__len__\<close>) is true.
\<close>

fun truthy :: "SchedulerResult option \<Rightarrow> bool" where
  "truthy None = False"
| "truthy (Some r) = True"

text \<open>
  \<^verbatim>\<open>run_forever\<close>. The loop has no bound of its own. It is run against a script
  giving the collaborators' answers cycle by cycle: it returns (\<open>Exited\<close>), or an
  exception that \<^verbatim>\<open>except Exception\<close> does not catch leaves it, or the script ends
  with the loop about to start its next cycle (\<open>Polling\<close>).
\<close>

datatype loop_status = Exited | Polling

fun run_forever_loop ::
  "collaborators list \<Rightarrow> OracleScheduler \<Rightarrow> filesystem \<Rightarrow> loop_status outcome" where
  "run_forever_loop [] s fs = \<lparr>result = Inr Polling, self = s, files = fs, events = []\<rparr>"
| "run_forever_loop (c # cs) s fs =
     (let r = attempt_submission c s fs;
          interval = poll_interval_seconds (settings s);
          caught = [Log ERROR ''Oracle iteration failed: %s'']
      in case result r of
           Inl exc \<Rightarrow>
             if is_Exception exc then
               (case sleep c of
                  Some stop \<Rightarrow>
                    \<lparr>result = Inl stop, self = self r, files = files r,
                     events = events r @ caught @ [Sleep interval]\<rparr>
                | None \<Rightarrow>
                    (let rest = run_forever_loop cs (self r) (files r)
                     in rest\<lparr>events := events r @ caught @ [Sleep interval] @ events rest\<rparr>))
             else \<lparr>result = Inl exc, self = self r, files = files r, events = events r\<rparr>
         | Inr should_continue \<Rightarrow>
             if \<not> truthy should_continue \<and> submit_only_once (settings s) then
               \<lparr>result = Inr Exited, self = self r, files = files r,
                events = events r @ [Log INFO ''Submit-once flag set; exiting loop.'']\<rparr>
             else
               (case sleep c of
                  Some stop \<Rightarrow>
                    \<lparr>result = Inl stop, self = self r, files = files r,
                     events = events r @ [Sleep interval]\<rparr>
                | None \<Rightarrow>
                    (let rest = run_forever_loop cs (self r) (files r)
                     in rest\<lparr>events := events r @ [Sleep interval] @ events rest\<rparr>)))"

definition run_forever ::
  "collaborators list \<Rightarrow> OracleScheduler \<Rightarrow> filesystem \<Rightarrow> loop_status outcome" where
  "run_forever script s fs =
     (let rest = run_forever_loop script s fs
      in rest\<lparr>events := Log INFO ''Oracle loop started; poll interval=%s'' # events rest\<rparr>)"

text \<open>
  The chain writes in a trace, in order: the arguments of each call of
  \<^verbatim>\<open>client.submit_result\<close> (what \<^verbatim>\<open>FakeClient.submissions\<close> collects in the tests).
\<close>

fun submissions :: "event list \<Rightarrow> (int \<times> int list) list" where
  "submissions [] = []"
| "submissions (SubmitResult pid nums # evs) = (pid, nums) # submissions evs"
| "submissions (ev # evs) = submissions evs"

text \<open>The number of cycles started in a trace: each one begins with a fetch.\<close>

fun cycles :: "event list \<Rightarrow> nat" where
  "cycles [] = 0"
| "cycles (FetchLatest # evs) = Suc (cycles evs)"
| "cycles (ev # evs) = cycles evs"

section \<open>The fixtures of the test suite\<close>

text \<open>
  \<^verbatim>\<open>_make_settings\<close>, the two draws and the two snapshots of
  \<^verbatim>\<open>oracle/tests/test_scheduler.py\<close>, and the fakes: a data source that returns its
  draw, a client that returns its snapshot and its hash, on a disk that works.
\<close>

definition test_settings :: OracleSettings where
  "test_settings =
     \<lparr>poll_interval_seconds = 5, submit_only_once = True, state_file = ''state.json''\<rparr>"

definition no_files :: filesystem where
  "no_files = (\<lambda>p. Missing)"

definition draw_2025_001 :: DrawData where
  "draw_2025_001 = \<lparr>issue_id = lit ''2025-001'', draw_date = 0, numbers = [1, 2, 3, 4, 5, 6]\<rparr>"

definition draw_2025_002 :: DrawData where
  "draw_2025_002 = \<lparr>issue_id = lit ''2025-002'', draw_date = 0, numbers = [8, 9, 10, 11, 12, 13]\<rparr>"

definition selling_snapshot :: PeriodSnapshot where
  "selling_snapshot =
     \<lparr>PeriodSnapshot.period_id = 1, status = SELLING, result_set = False,
      winning_numbers = [0, 0, 0, 0, 0, 0], ticket_count = 10\<rparr>"

definition closed_snapshot :: PeriodSnapshot where
  "closed_snapshot =
     \<lparr>PeriodSnapshot.period_id = 2, status = CLOSED, result_set = False,
      winning_numbers = [0, 0, 0, 0, 0, 0], ticket_count = 40\<rparr>"

definition fakes :: "DrawData \<Rightarrow> PeriodSnapshot \<Rightarrow> string \<Rightarrow> collaborators" where
  "fakes draw snapshot tx =
     \<lparr>fetch_latest = Inr draw, get_current_period = Inr snapshot,
      submit_result = FakeClient_submit_result tx, write_text = Written,
      close = None, sleep = None\<rparr>"

text \<open>A scheduler constructed over the test settings with the given cached issue id.\<close>

definition test_scheduler :: "json \<Rightarrow> OracleScheduler" where
  "test_scheduler cached =
     \<lparr>settings = test_settings, state = OracleStateStore_init (state_file test_settings),
      last_issue_id = cached\<rparr>"

text \<open>
  A draw that reports the numbers of \<open>draw_2025_002\<close> in descending order, and a client
  whose write is sent and then fails (the transaction reverts).
\<close>

definition reversed_draw :: DrawData where
  "reversed_draw = \<lparr>issue_id = lit ''2025-003'', draw_date = 0, numbers = [13, 12, 11, 10, 9, 8]\<rparr>"

definition failing_writer :: collaborators where
  "failing_writer =
     (fakes draw_2025_002 closed_snapshot ''0xabc'')
       \<lparr>submit_result := (\<lambda>pid nums. ([(pid, nums)], Inl RuntimeError))\<rparr>"

text \<open>
  A state file that holds the JSON text \<^verbatim>\<open>42\<close>. The result of Scenario B of the
  specification, with three numbers. Collaborators whose client is the production
  \<^verbatim>\<open>LotteryClient\<close> over a chain that accepts every transaction. Collaborators
  whose disk is full: the write of the state file fails and leaves an empty file, which
  is not JSON.
\<close>

definition bare_number_file :: filesystem where
  "bare_number_file = no_files(''state.json'' := Document (JInt 42))"

definition draw_of_three :: DrawData where
  "draw_of_three = \<lparr>issue_id = lit ''2025-002'', draw_date = 0, numbers = [13, 9, 11]\<rparr>"

definition production :: "DrawData \<Rightarrow> PeriodSnapshot \<Rightarrow> string \<Rightarrow> collaborators" where
  "production draw snapshot tx =
     (fakes draw snapshot tx)
       \<lparr>submit_result := LotteryClient_submit_result (\<lambda>pid nums. ([(pid, nums)], Inr tx))\<rparr>"

definition full_disk :: collaborators where
  "full_disk = (fakes draw_2025_002 closed_snapshot ''0xabc'')\<lparr>write_text := WriteFailed NotJson\<rparr>"

text \<open>Collaborators whose data source is unreachable: \<^verbatim>\<open>fetch_latest\<close> raises.\<close>

definition feed_down :: collaborators where
  "feed_down = (fakes draw_2025_001 selling_snapshot ''0x123'')\<lparr>fetch_latest := Inl RuntimeError\<rparr>"

text \<open>
  A client that accepts the numbers 8 to 13 in ascending order only, sends them and
  returns a hash; given anything else it raises and sends nothing. Its data source
  reports them in descending order.
\<close>

definition picky_writer :: collaborators where
  "picky_writer =
     (fakes reversed_draw closed_snapshot ''0xabc'')
       \<lparr>submit_result := (\<lambda>pid nums.
          if nums = [8, 9, 10, 11, 12, 13] then ([(pid, nums)], Inr ''0xabc'')
          else ([], Inl ValueError))\<rparr>"

text \<open>An issue id of two code points, a high surrogate followed by a low surrogate.\<close>

definition split_pair :: pystr where
  "split_pair = [55296, 56320]"

section \<open>One cycle: the decision\<close>

lemma submissions_append: "submissions (xs @ ys) = submissions xs @ submissions ys"
  by (induction xs rule: submissions.induct) simp_all

lemma submissions_broadcasts: "submissions (map broadcast_event sent) = []"
  by (induction sent) auto

lemma lit_eq_iff [simp]: "lit a = lit b \<longleftrightarrow> a = b"
  by (simp add: lit_def inj_map_eq_map [OF inj_of_char])

lemma submit_branch_submissions:
  assumes "fetch_latest c = Inr draw"
    and "last_issue_id s \<noteq> JString (issue_id draw)"
    and "get_current_period c = Inr snapshot"
    and "status snapshot = CLOSED" and "\<not> result_set snapshot"
  shows "submissions (events (attempt_submission c s fs)) =
           [(period_id snapshot, sort (numbers draw))]"
  using assms
  by (simp add: attempt_submission_def Let_def sorted_numbers_def submissions_append
      submissions_broadcasts split: prod.split sum.split)

text \<open>
  The Submit branch is decided by what \<^verbatim>\<open>client.submit_result\<close> answers when it is
  applied to the snapshot's period id and the sorted numbers: when it raises, the cycle
  raises the same exception and nothing has changed; when it returns a hash, the cycle
  caches the issue id, writes the state file, and returns the hash if the write succeeds.
\<close>

lemma submit_branch_raises:
  assumes "fetch_latest c = Inr draw"
    and "last_issue_id s \<noteq> JString (issue_id draw)"
    and "get_current_period c = Inr snapshot"
    and "status snapshot = CLOSED" and "\<not> result_set snapshot"
    and "submit_result c (period_id snapshot) (sort (numbers draw)) = (sent, Inl exc)"
  shows "attempt_submission c s fs =
     \<lparr>result = Inl exc, self = s, files = fs,
      events = [FetchLatest, GetCurrentPeriod,
        Log INFO ''Submitting oracle result for period %s issue %s -> %s'',
        SubmitResult (period_id snapshot) (sort (numbers draw))] @ map broadcast_event sent\<rparr>"
  using assms by (simp add: attempt_submission_def Let_def sorted_numbers_def)

lemma submit_branch_returns:
  assumes "fetch_latest c = Inr draw"
    and "last_issue_id s \<noteq> JString (issue_id draw)"
    and "get_current_period c = Inr snapshot"
    and "status snapshot = CLOSED" and "\<not> result_set snapshot"
    and "submit_result c (period_id snapshot) (sort (numbers draw)) = (sent, Inr tx)"
  shows "events (attempt_submission c s fs) =
      [FetchLatest, GetCurrentPeriod,
       Log INFO ''Submitting oracle result for period %s issue %s -> %s'',
       SubmitResult (period_id snapshot) (sort (numbers draw))] @ map broadcast_event sent @
      [Log INFO ''submitResult broadcast: %s'', WriteText (path (state s))]"
    and "last_issue_id (self (attempt_submission c s fs)) = JString (issue_id draw)"
    and "write_text c = Written \<Longrightarrow>
      result (attempt_submission c s fs) =
        Inr (Some \<lparr>SchedulerResult.period_id = period_id snapshot,
          SchedulerResult.issue_id = issue_id draw, tx_hash = tx\<rparr>)"
  using assms
  by (simp_all add: attempt_submission_def Let_def sorted_numbers_def save_last_issue_def
      split: prod.split sum.split)

text \<open>
  C2. Skip-Duplicate is the first branch of the cycle: the debug record, no action,
  \<^verbatim>\<open>None\<close> returned. When the cached \<open>last_issue_id\<close> is the string that the fetched
  result carries as its issue id, the cycle is exactly that: it returns \<^verbatim>\<open>None\<close>, leaves
  the scheduler and the files as they were, and does nothing besides the fetch and the
  log record. Nothing is assumed of the period snapshot, nor of any other answer of the
  collaborators.
\<close>

theorem duplicate_issue_skipped:
  assumes "fetch_latest c = Inr draw" and "last_issue_id s = JString (issue_id draw)"
  shows "attempt_submission c s fs =
     \<lparr>result = Inr None, self = s, files = fs,
      events = [FetchLatest, Log DEBUG ''Issue %s already submitted; skipping.'']\<rparr>"
  using assms by (simp add: attempt_submission_def)

theorem duplicate_issue_skipped_witness:
  "fetch_latest (fakes draw_2025_002 closed_snapshot ''0xabc'') = Inr draw_2025_002 \<and>
   last_issue_id (test_scheduler (JString (lit ''2025-002''))) = JString (issue_id draw_2025_002) \<and>
   attempt_submission (fakes draw_2025_002 closed_snapshot ''0xabc'')
       (test_scheduler (JString (lit ''2025-002''))) no_files =
     \<lparr>result = Inr None, self = test_scheduler (JString (lit ''2025-002'')), files = no_files,
      events = [FetchLatest, Log DEBUG ''Issue %s already submitted; skipping.'']\<rparr>"
proof -
  have fetched: "fetch_latest (fakes draw_2025_002 closed_snapshot ''0xabc'') = Inr draw_2025_002"
    by (simp add: fakes_def)
  have cached:
    "last_issue_id (test_scheduler (JString (lit ''2025-002''))) = JString (issue_id draw_2025_002)"
    by (simp add: test_scheduler_def draw_2025_002_def)
  from duplicate_issue_skipped [OF fetched cached] fetched cached show ?thesis
    by simp
qed

text \<open>
  C3. A cycle whose fetched result is not the cached \<open>last_issue_id\<close>, and whose read of
  the period succeeds, takes one of three branches. A snapshot whose status is not
  \<open>CLOSED\<close> gives Skip-NotReady: \<^verbatim>\<open>None\<close> is returned, nothing changes, and the
  cycle does nothing after the read but log. A \<open>CLOSED\<close> snapshot with \<open>result_set\<close>
  gives Skip-AlreadySet, in the same way. A \<open>CLOSED\<close> snapshot without \<open>result_set\<close>
  gives Submit: the chain writer is called once, with the snapshot's period id and the
  numbers of the result in ascending order, and what it answers to these arguments is
  what the cycle does next. If it raises, the cycle raises the same and has sent what
  the writer sent; if it returns a hash, the cycle has sent what the writer sent, caches
  the issue id, writes the state file and, the write succeeding, returns the period id,
  the issue id and that hash.
\<close>

theorem decision_when_not_duplicate:
  assumes "fetch_latest c = Inr draw"
    and "last_issue_id s \<noteq> JString (issue_id draw)"
    and "get_current_period c = Inr snapshot"
  shows "(status snapshot \<noteq> CLOSED \<longrightarrow>
            attempt_submission c s fs =
              \<lparr>result = Inr None, self = s, files = fs,
               events = [FetchLatest, GetCurrentPeriod,
                 Log INFO ''Current period %s not closed yet (status=%s); waiting.'']\<rparr>) \<and>
         (status snapshot = CLOSED \<and> result_set snapshot \<longrightarrow>
            attempt_submission c s fs =
              \<lparr>result = Inr None, self = s, files = fs,
               events = [FetchLatest, GetCurrentPeriod,
                 Log INFO ''Period %s already has results on-chain; skipping.'']\<rparr>) \<and>
         (status snapshot = CLOSED \<and> \<not> result_set snapshot \<longrightarrow>
            submissions (events (attempt_submission c s fs)) =
              [(period_id snapshot, sort (numbers draw))] \<and>
            (\<forall>sent exc.
               submit_result c (period_id snapshot) (sort (numbers draw)) = (sent, Inl exc) \<longrightarrow>
               attempt_submission c s fs =
                 \<lparr>result = Inl exc, self = s, files = fs,
                  events = [FetchLatest, GetCurrentPeriod,
                    Log INFO ''Submitting oracle result for period %s issue %s -> %s'',
                    SubmitResult (period_id snapshot) (sort (numbers draw))] @
                    map broadcast_event sent\<rparr>) \<and>
            (\<forall>sent tx.
               submit_result c (period_id snapshot) (sort (numbers draw)) = (sent, Inr tx) \<longrightarrow>
               events (attempt_submission c s fs) =
                 [FetchLatest, GetCurrentPeriod,
                  Log INFO ''Submitting oracle result for period %s issue %s -> %s'',
                  SubmitResult (period_id snapshot) (sort (numbers draw))] @
                 map broadcast_event sent @
                 [Log INFO ''submitResult broadcast: %s'', WriteText (path (state s))] \<and>
               last_issue_id (self (attempt_submission c s fs)) = JString (issue_id draw) \<and>
               (write_text c = Written \<longrightarrow>
                  result (attempt_submission c s fs) =
                    Inr (Some \<lparr>SchedulerResult.period_id = period_id snapshot,
                      SchedulerResult.issue_id = issue_id draw, tx_hash = tx\<rparr>))))"
proof (intro conjI impI allI)
  assume "status snapshot \<noteq> CLOSED"
  with assms show "attempt_submission c s fs =
      \<lparr>result = Inr None, self = s, files = fs,
       events = [FetchLatest, GetCurrentPeriod,
         Log INFO ''Current period %s not closed yet (status=%s); waiting.'']\<rparr>"
    by (simp add: attempt_submission_def)
next
  assume "status snapshot = CLOSED \<and> result_set snapshot"
  with assms show "attempt_submission c s fs =
      \<lparr>result = Inr None, self = s, files = fs,
       events = [FetchLatest, GetCurrentPeriod,
         Log INFO ''Period %s already has results on-chain; skipping.'']\<rparr>"
    by (simp add: attempt_submission_def)
next
  assume "status snapshot = CLOSED \<and> \<not> result_set snapshot"
  with assms show "submissions (events (attempt_submission c s fs)) =
      [(period_id snapshot, sort (numbers draw))]"
    by (simp add: submit_branch_submissions)
next
  fix sent exc
  assume "status snapshot = CLOSED \<and> \<not> result_set snapshot"
    and "submit_result c (period_id snapshot) (sort (numbers draw)) = (sent, Inl exc)"
  with assms show "attempt_submission c s fs =
      \<lparr>result = Inl exc, self = s, files = fs,
       events = [FetchLatest, GetCurrentPeriod,
         Log INFO ''Submitting oracle result for period %s issue %s -> %s'',
         SubmitResult (period_id snapshot) (sort (numbers draw))] @
         map broadcast_event sent\<rparr>"
    by (simp add: submit_branch_raises)
next
  fix sent tx
  assume submit: "status snapshot = CLOSED \<and> \<not> result_set snapshot"
    "submit_result c (period_id snapshot) (sort (numbers draw)) = (sent, Inr tx)"
  with assms show "events (attempt_submission c s fs) =
      [FetchLatest, GetCurrentPeriod,
       Log INFO ''Submitting oracle result for period %s issue %s -> %s'',
       SubmitResult (period_id snapshot) (sort (numbers draw))] @
      map broadcast_event sent @
      [Log INFO ''submitResult broadcast: %s'', WriteText (path (state s))]"
    by (simp add: submit_branch_returns(1))
  from assms submit
  show "last_issue_id (self (attempt_submission c s fs)) = JString (issue_id draw)"
    by (simp add: submit_branch_returns(2))
  assume "write_text c = Written"
  with assms submit show "result (attempt_submission c s fs) =
      Inr (Some \<lparr>SchedulerResult.period_id = period_id snapshot,
        SchedulerResult.issue_id = issue_id draw, tx_hash = tx\<rparr>)"
    by (simp add: submit_branch_returns(3))
qed

theorem decision_when_not_duplicate_witness:
  "(fetch_latest (fakes draw_2025_001 selling_snapshot ''0x123'') = Inr draw_2025_001 \<and>
    last_issue_id (test_scheduler JNull) \<noteq> JString (issue_id draw_2025_001) \<and>
    get_current_period (fakes draw_2025_001 selling_snapshot ''0x123'') = Inr selling_snapshot \<and>
    status selling_snapshot \<noteq> CLOSED \<and>
    attempt_submission (fakes draw_2025_001 selling_snapshot ''0x123'')
        (test_scheduler JNull) no_files =
      \<lparr>result = Inr None, self = test_scheduler JNull, files = no_files,
       events = [FetchLatest, GetCurrentPeriod,
         Log INFO ''Current period %s not closed yet (status=%s); waiting.'']\<rparr>) \<and>
   (fetch_latest (fakes draw_2025_002 (closed_snapshot\<lparr>result_set := True\<rparr>) ''0x123'') =
      Inr draw_2025_002 \<and>
    last_issue_id (test_scheduler JNull) \<noteq> JString (issue_id draw_2025_002) \<and>
    get_current_period (fakes draw_2025_002 (closed_snapshot\<lparr>result_set := True\<rparr>) ''0x123'') =
      Inr (closed_snapshot\<lparr>result_set := True\<rparr>) \<and>
    status (closed_snapshot\<lparr>result_set := True\<rparr>) = CLOSED \<and>
    result_set (closed_snapshot\<lparr>result_set := True\<rparr>) \<and>
    attempt_submission (fakes draw_2025_002 (closed_snapshot\<lparr>result_set := True\<rparr>) ''0x123'')
        (test_scheduler JNull) no_files =
      \<lparr>result = Inr None, self = test_scheduler JNull, files = no_files,
       events = [FetchLatest, GetCurrentPeriod,
         Log INFO ''Period %s already has results on-chain; skipping.'']\<rparr>) \<and>
   (fetch_latest (fakes draw_2025_002 closed_snapshot ''0xabc'') = Inr draw_2025_002 \<and>
    last_issue_id (test_scheduler JNull) \<noteq> JString (issue_id draw_2025_002) \<and>
    get_current_period (fakes draw_2025_002 closed_snapshot ''0xabc'') = Inr closed_snapshot \<and>
    status closed_snapshot = CLOSED \<and> \<not> result_set closed_snapshot \<and>
    submit_result (fakes draw_2025_002 closed_snapshot ''0xabc'') 2 [8, 9, 10, 11, 12, 13] =
      ([], Inr ''0xabc'') \<and>
    write_text (fakes draw_2025_002 closed_snapshot ''0xabc'') = Written \<and>
    submissions (events (attempt_submission (fakes draw_2025_002 closed_snapshot ''0xabc'')
        (test_scheduler JNull) no_files)) = [(2, [8, 9, 10, 11, 12, 13])] \<and>
    result (attempt_submission (fakes draw_2025_002 closed_snapshot ''0xabc'')
        (test_scheduler JNull) no_files) =
      Inr (Some \<lparr>SchedulerResult.period_id = 2, SchedulerResult.issue_id = lit ''2025-002'',
        tx_hash = ''0xabc''\<rparr>))"
proof -
  have a: "fetch_latest (fakes draw_2025_001 selling_snapshot ''0x123'') = Inr draw_2025_001"
    "last_issue_id (test_scheduler JNull) \<noteq> JString (issue_id draw_2025_001)"
    "get_current_period (fakes draw_2025_001 selling_snapshot ''0x123'') = Inr selling_snapshot"
    "status selling_snapshot \<noteq> CLOSED"
    by (simp_all add: fakes_def test_scheduler_def selling_snapshot_def)
  have b: "fetch_latest (fakes draw_2025_002 (closed_snapshot\<lparr>result_set := True\<rparr>) ''0x123'') =
      Inr draw_2025_002"
    "last_issue_id (test_scheduler JNull) \<noteq> JString (issue_id draw_2025_002)"
    "get_current_period (fakes draw_2025_002 (closed_snapshot\<lparr>result_set := True\<rparr>) ''0x123'') =
      Inr (closed_snapshot\<lparr>result_set := True\<rparr>)"
    "status (closed_snapshot\<lparr>result_set := True\<rparr>) = CLOSED"
    "result_set (closed_snapshot\<lparr>result_set := True\<rparr>)"
    by (simp_all add: fakes_def test_scheduler_def closed_snapshot_def)
  have c: "fetch_latest (fakes draw_2025_002 closed_snapshot ''0xabc'') = Inr draw_2025_002"
    "last_issue_id (test_scheduler JNull) \<noteq> JString (issue_id draw_2025_002)"
    "get_current_period (fakes draw_2025_002 closed_snapshot ''0xabc'') = Inr closed_snapshot"
    "status closed_snapshot = CLOSED" "\<not> result_set closed_snapshot"
    by (simp_all add: fakes_def test_scheduler_def closed_snapshot_def)
  have answer:
    "submit_result (fakes draw_2025_002 closed_snapshot ''0xabc'') 2 [8, 9, 10, 11, 12, 13] =
      ([], Inr ''0xabc'')"
    "write_text (fakes draw_2025_002 closed_snapshot ''0xabc'') = Written"
    by (simp_all add: fakes_def FakeClient_submit_result_def)
  have vals: "sort (numbers draw_2025_002) = [8, 9, 10, 11, 12, 13]"
    "period_id closed_snapshot = 2" "issue_id draw_2025_002 = lit ''2025-002''"
    by (simp_all add: draw_2025_002_def closed_snapshot_def)
  from decision_when_not_duplicate [OF a(1-3), of no_files]
       decision_when_not_duplicate [OF b(1-3), of no_files]
       decision_when_not_duplicate [OF c(1-3), of no_files]
       a b c answer vals
  show ?thesis by simp
qed

text \<open>
  C4. In a cycle whose fetched result carries the cached \<open>last_issue_id\<close>, the chain is
  not touched: \<^verbatim>\<open>get_current_period\<close> is not called, \<^verbatim>\<open>submit_result\<close> is not
  called, and no transaction is sent.
\<close>

theorem duplicate_touches_no_chain:
  assumes "fetch_latest c = Inr draw" and "last_issue_id s = JString (issue_id draw)"
  shows "GetCurrentPeriod \<notin> set (events (attempt_submission c s fs)) \<and>
         submissions (events (attempt_submission c s fs)) = [] \<and>
         (\<forall>pid nums. Broadcast pid nums \<notin> set (events (attempt_submission c s fs)))"
  using assms by (simp add: attempt_submission_def)

theorem duplicate_touches_no_chain_witness:
  "fetch_latest (fakes draw_2025_002 closed_snapshot ''0xabc'') = Inr draw_2025_002 \<and>
   last_issue_id (test_scheduler (JString (lit ''2025-002''))) = JString (issue_id draw_2025_002) \<and>
   GetCurrentPeriod \<notin> set (events (attempt_submission
       (fakes draw_2025_002 closed_snapshot ''0xabc'')
       (test_scheduler (JString (lit ''2025-002''))) no_files)) \<and>
   submissions (events (attempt_submission (fakes draw_2025_002 closed_snapshot ''0xabc'')
       (test_scheduler (JString (lit ''2025-002''))) no_files)) = []"
proof -
  have fetched: "fetch_latest (fakes draw_2025_002 closed_snapshot ''0xabc'') = Inr draw_2025_002"
    by (simp add: fakes_def)
  have cached:
    "last_issue_id (test_scheduler (JString (lit ''2025-002''))) = JString (issue_id draw_2025_002)"
    by (simp add: test_scheduler_def draw_2025_002_def)
  from duplicate_touches_no_chain [OF fetched cached, of no_files] fetched cached
  show ?thesis by simp
qed

section \<open>One cycle: what is submitted, and when the state changes\<close>

text \<open>
  C5. On the Submit branch the chain writer is called once, and the numbers it is given
  are the numbers of the feed's result in non-decreasing order: a sorted list with the
  same elements, each as often as the feed reported it. Every result that reports the
  same numbers in another order has the same canonical form, so the order of the feed
  does not show in what is submitted. It is the writer's answer to this sorted list that
  the cycle goes on with: its exception is the cycle's exception, and its hash is the
  hash the cycle returns once the state file is written.
\<close>

theorem submitted_numbers_canonical:
  assumes "fetch_latest c = Inr draw"
    and "last_issue_id s \<noteq> JString (issue_id draw)"
    and "get_current_period c = Inr snapshot"
    and "status snapshot = CLOSED" and "\<not> result_set snapshot"
  shows "\<exists>nums. submissions (events (attempt_submission c s fs)) = [(period_id snapshot, nums)] \<and>
           sorted nums \<and> mset nums = mset (numbers draw) \<and>
           (\<forall>other. mset (numbers other) = mset (numbers draw) \<longrightarrow> sorted_numbers other = nums) \<and>
           (\<forall>sent exc. submit_result c (period_id snapshot) nums = (sent, Inl exc) \<longrightarrow>
              result (attempt_submission c s fs) = Inl exc \<and>
              events (attempt_submission c s fs) =
                [FetchLatest, GetCurrentPeriod,
                 Log INFO ''Submitting oracle result for period %s issue %s -> %s'',
                 SubmitResult (period_id snapshot) nums] @ map broadcast_event sent) \<and>
           (\<forall>sent tx. submit_result c (period_id snapshot) nums = (sent, Inr tx) \<longrightarrow>
              events (attempt_submission c s fs) =
                [FetchLatest, GetCurrentPeriod,
                 Log INFO ''Submitting oracle result for period %s issue %s -> %s'',
                 SubmitResult (period_id snapshot) nums] @ map broadcast_event sent @
                [Log INFO ''submitResult broadcast: %s'', WriteText (path (state s))] \<and>
              (write_text c = Written \<longrightarrow>
                 result (attempt_submission c s fs) =
                   Inr (Some \<lparr>SchedulerResult.period_id = period_id snapshot,
                     SchedulerResult.issue_id = issue_id draw, tx_hash = tx\<rparr>)))"
proof (intro exI conjI allI impI)
  show "submissions (events (attempt_submission c s fs)) =
      [(period_id snapshot, sort (numbers draw))]"
    using assms by (rule submit_branch_submissions)
  show "sorted (sort (numbers draw))" by simp
  show "mset (sort (numbers draw)) = mset (numbers draw)" by simp
next
  fix other :: DrawData
  assume "mset (numbers other) = mset (numbers draw)"
  then show "sorted_numbers other = sort (numbers draw)"
    unfolding sorted_numbers_def by (intro properties_for_sort) simp_all
next
  fix sent exc
  assume "submit_result c (period_id snapshot) (sort (numbers draw)) = (sent, Inl exc)"
  note raised = submit_branch_raises [OF assms this, of fs]
  show "result (attempt_submission c s fs) = Inl exc"
    by (simp add: raised)
  show "events (attempt_submission c s fs) =
      [FetchLatest, GetCurrentPeriod,
       Log INFO ''Submitting oracle result for period %s issue %s -> %s'',
       SubmitResult (period_id snapshot) (sort (numbers draw))] @ map broadcast_event sent"
    by (simp add: raised)
next
  fix sent tx
  assume answer: "submit_result c (period_id snapshot) (sort (numbers draw)) = (sent, Inr tx)"
  show "events (attempt_submission c s fs) =
      [FetchLatest, GetCurrentPeriod,
       Log INFO ''Submitting oracle result for period %s issue %s -> %s'',
       SubmitResult (period_id snapshot) (sort (numbers draw))] @ map broadcast_event sent @
      [Log INFO ''submitResult broadcast: %s'', WriteText (path (state s))]"
    by (rule submit_branch_returns(1) [OF assms answer])
  assume "write_text c = Written"
  then show "result (attempt_submission c s fs) =
      Inr (Some \<lparr>SchedulerResult.period_id = period_id snapshot,
        SchedulerResult.issue_id = issue_id draw, tx_hash = tx\<rparr>)"
    by (rule submit_branch_returns(3) [OF assms answer])
qed

theorem submitted_numbers_canonical_witness:
  "fetch_latest picky_writer = Inr reversed_draw \<and>
   last_issue_id (test_scheduler JNull) \<noteq> JString (issue_id reversed_draw) \<and>
   get_current_period picky_writer = Inr closed_snapshot \<and>
   status closed_snapshot = CLOSED \<and> \<not> result_set closed_snapshot \<and>
   numbers reversed_draw = [13, 12, 11, 10, 9, 8] \<and>
   mset (numbers draw_2025_002) = mset (numbers reversed_draw) \<and>
   sorted_numbers draw_2025_002 = [8, 9, 10, 11, 12, 13] \<and>
   submit_result picky_writer 2 [13, 12, 11, 10, 9, 8] = ([], Inl ValueError) \<and>
   submit_result picky_writer 2 [8, 9, 10, 11, 12, 13] = ([(2, [8, 9, 10, 11, 12, 13])], Inr ''0xabc'') \<and>
   write_text picky_writer = Written \<and>
   submissions (events (attempt_submission picky_writer (test_scheduler JNull) no_files)) =
     [(2, [8, 9, 10, 11, 12, 13])] \<and>
   result (attempt_submission picky_writer (test_scheduler JNull) no_files) =
     Inr (Some \<lparr>SchedulerResult.period_id = 2, SchedulerResult.issue_id = lit ''2025-003'',
       tx_hash = ''0xabc''\<rparr>)"
proof -
  have h: "fetch_latest picky_writer = Inr reversed_draw"
    "last_issue_id (test_scheduler JNull) \<noteq> JString (issue_id reversed_draw)"
    "get_current_period picky_writer = Inr closed_snapshot"
    "status closed_snapshot = CLOSED" "\<not> result_set closed_snapshot"
    by (simp_all add: picky_writer_def fakes_def test_scheduler_def closed_snapshot_def)
  have feed: "numbers reversed_draw = [13, 12, 11, 10, 9, 8]"
    "mset (numbers draw_2025_002) = mset (numbers reversed_draw)"
    by (simp_all add: draw_2025_002_def reversed_draw_def)
  have canon: "sorted_numbers draw_2025_002 = [8, 9, 10, 11, 12, 13]"
    by (simp add: sorted_numbers_def draw_2025_002_def)
  have writer: "submit_result picky_writer 2 [13, 12, 11, 10, 9, 8] = ([], Inl ValueError)"
    "submit_result picky_writer 2 [8, 9, 10, 11, 12, 13] =
       ([(2, [8, 9, 10, 11, 12, 13])], Inr ''0xabc'')"
    "write_text picky_writer = Written"
    by (simp_all add: picky_writer_def fakes_def)
  have vals: "period_id closed_snapshot = 2" "issue_id reversed_draw = lit ''2025-003''"
    by (simp_all add: closed_snapshot_def reversed_draw_def)
  from submitted_numbers_canonical [OF h, of no_files] obtain nums where
    sub: "submissions (events (attempt_submission picky_writer (test_scheduler JNull) no_files)) =
       [(period_id closed_snapshot, nums)]"
    and ind: "\<forall>other. mset (numbers other) = mset (numbers reversed_draw) \<longrightarrow>
       sorted_numbers other = nums"
    and ret: "\<forall>sent tx. submit_result picky_writer (period_id closed_snapshot) nums = (sent, Inr tx) \<longrightarrow>
       events (attempt_submission picky_writer (test_scheduler JNull) no_files) =
         [FetchLatest, GetCurrentPeriod,
          Log INFO ''Submitting oracle result for period %s issue %s -> %s'',
          SubmitResult (period_id closed_snapshot) nums] @ map broadcast_event sent @
         [Log INFO ''submitResult broadcast: %s'',
          WriteText (path (state (test_scheduler JNull)))] \<and>
       (write_text picky_writer = Written \<longrightarrow>
          result (attempt_submission picky_writer (test_scheduler JNull) no_files) =
            Inr (Some \<lparr>SchedulerResult.period_id = period_id closed_snapshot,
              SchedulerResult.issue_id = issue_id reversed_draw, tx_hash = tx\<rparr>))"
    by blast
  from ind feed(2) canon have nums: "nums = [8, 9, 10, 11, 12, 13]" by metis
  from ret writer(2,3) have "result (attempt_submission picky_writer (test_scheduler JNull) no_files) =
      Inr (Some \<lparr>SchedulerResult.period_id = 2, SchedulerResult.issue_id = lit ''2025-003'',
        tx_hash = ''0xabc''\<rparr>)"
    unfolding nums vals by blast
  with sub nums vals h feed canon writer show ?thesis by simp
qed

text \<open>
  C6. A cycle that fails before the chain write has succeeded changes neither the cached
  \<open>last_issue_id\<close> nor any file: this holds when \<^verbatim>\<open>fetch_latest\<close> raises, when
  \<^verbatim>\<open>get_current_period\<close> raises, and when the call of \<^verbatim>\<open>submit_result\<close> that the
  cycle makes raises.
\<close>

theorem failed_cycle_leaves_state:
  assumes "fetch_latest c = Inl exc \<or>
           (fetch_latest c = Inr draw \<and> get_current_period c = Inl exc) \<or>
           (fetch_latest c = Inr draw \<and> get_current_period c = Inr snapshot \<and>
            snd (submit_result c (period_id snapshot) (sorted_numbers draw)) = Inl exc)"
  shows "last_issue_id (self (attempt_submission c s fs)) = last_issue_id s \<and>
         files (attempt_submission c s fs) = fs"
  using assms
  by (auto simp add: attempt_submission_def Let_def split: sum.split prod.split)

theorem failed_cycle_leaves_state_witness:
  "(fetch_latest ((fakes draw_2025_002 closed_snapshot ''0xabc'')\<lparr>fetch_latest := Inl RuntimeError\<rparr>)
      = Inl RuntimeError \<and>
    last_issue_id (self (attempt_submission
      ((fakes draw_2025_002 closed_snapshot ''0xabc'')\<lparr>fetch_latest := Inl RuntimeError\<rparr>)
      (test_scheduler (JString (lit ''2025-001''))) no_files)) = JString (lit ''2025-001'') \<and>
    files (attempt_submission
      ((fakes draw_2025_002 closed_snapshot ''0xabc'')\<lparr>fetch_latest := Inl RuntimeError\<rparr>)
      (test_scheduler (JString (lit ''2025-001''))) no_files) = no_files) \<and>
   (fetch_latest failing_writer = Inr draw_2025_002 \<and>
    get_current_period failing_writer = Inr closed_snapshot \<and>
    snd (submit_result failing_writer (period_id closed_snapshot) (sorted_numbers draw_2025_002))
      = Inl RuntimeError \<and>
    result (attempt_submission failing_writer (test_scheduler (JString (lit ''2025-001''))) no_files)
      = Inl RuntimeError \<and>
    last_issue_id (self (attempt_submission failing_writer
      (test_scheduler (JString (lit ''2025-001''))) no_files)) = JString (lit ''2025-001'') \<and>
    files (attempt_submission failing_writer (test_scheduler (JString (lit ''2025-001''))) no_files)
      = no_files)"
proof -
  let ?c = "(fakes draw_2025_002 closed_snapshot ''0xabc'')\<lparr>fetch_latest := Inl RuntimeError\<rparr>"
  have a: "fetch_latest ?c = Inl RuntimeError"
    by simp
  have b: "fetch_latest failing_writer = Inr draw_2025_002"
    "get_current_period failing_writer = Inr closed_snapshot"
    "snd (submit_result failing_writer (period_id closed_snapshot) (sorted_numbers draw_2025_002))
      = Inl RuntimeError"
    by (simp_all add: failing_writer_def fakes_def)
  have raised:
    "result (attempt_submission failing_writer (test_scheduler (JString (lit ''2025-001''))) no_files)
      = Inl RuntimeError"
    by (simp add: attempt_submission_def Let_def failing_writer_def fakes_def
        test_scheduler_def draw_2025_002_def closed_snapshot_def)
  have cached: "last_issue_id (test_scheduler (JString (lit ''2025-001''))) = JString (lit ''2025-001'')"
    by (simp add: test_scheduler_def)
  from failed_cycle_leaves_state [of ?c RuntimeError draw_2025_002 closed_snapshot
         "test_scheduler (JString (lit ''2025-001''))" no_files]
       failed_cycle_leaves_state [of failing_writer RuntimeError draw_2025_002 closed_snapshot
         "test_scheduler (JString (lit ''2025-001''))" no_files]
       a b raised cached
  show ?thesis by simp
qed

section \<open>Issue ids through JSON\<close>

text \<open>
  Four hexadecimal digits read back as the number they were written from, and
  \<^verbatim>\<open>scanstring\<close> undoes \<^verbatim>\<open>encode_basestring_ascii\<close> code point by code point,
  unless it meets the escape of a high surrogate directly before the escape of a low
  surrogate: these two it reads as one code point. The encoder writes such a pair of
  escapes for a code point from \<open>0x10000\<close> on, and also for a high surrogate that is
  followed by a low surrogate in the string.
\<close>

lemma hexval_hexdigit: "d < 16 \<Longrightarrow> hexval (hexdigit d) = Some d"
  by (auto simp add: hexval_def hexdigit_def)

lemma div_4096: "(n::nat) div 4096 = n div 256 div 16"
  by (simp add: div_mult2_eq [symmetric])

lemma div_256: "(n::nat) div 256 = n div 16 div 16"
  by (simp add: div_mult2_eq [symmetric])

lemma hex_value:
  fixes n :: nat
  assumes "n < 65536"
  shows "((n div 4096 mod 16 * 16 + n div 256 mod 16) * 16 + n div 16 mod 16) * 16 + n mod 16 = n"
proof -
  have top: "n div 4096 mod 16 = n div 4096"
    using assms by (simp add: less_mult_imp_div_less)
  have a: "n div 256 = n div 4096 * 16 + n div 256 mod 16"
    unfolding div_4096 by simp
  have b: "n div 16 = n div 256 * 16 + n div 16 mod 16"
    unfolding div_256 by simp
  have c: "n = n div 16 * 16 + n mod 16"
    by simp
  show ?thesis
    by (simp only: top a [symmetric] b [symmetric] c [symmetric])
qed

lemma decode_hex4: "n < 65536 \<Longrightarrow> decode_uXXXX (hex4 n @ T) = Some n"
  using hex_value [of n] by (simp add: hex4_def hexval_hexdigit)

lemma drop_hex4: "drop 4 (hex4 n @ T) = T" "drop 6 (hex4 n @ T) = drop 2 T"
  "drop 10 (hex4 n @ T) = drop 6 T"
  by (simp_all add: hex4_def)

lemma scan_short:
  "backslash esc = Some c \<Longrightarrow> esc \<noteq> 117 \<Longrightarrow>
   scanstring (92 # esc # T) = append_char c (scanstring T)"
  by simp

lemma scan_plain:
  "32 \<le> c \<Longrightarrow> c \<noteq> 34 \<Longrightarrow> c \<noteq> 92 \<Longrightarrow>
   scanstring (c # T) = append_char c (scanstring T)"
  by simp

lemma scan_unicode_single:
  assumes "uni < 65536"
    and "is_high uni \<and> take 2 T = [92, 117] \<longrightarrow>
         (\<exists>u. decode_uXXXX (drop 2 T) = Some u \<and> \<not> is_low u)"
  shows "scanstring (92 # 117 # hex4 uni @ T) = append_char uni (scanstring T)"
  using assms
  by (auto simp add: decode_hex4 drop_hex4 is_high_def is_low_def
      simp del: decode_uXXXX.simps drop_append take_append)

lemma scan_unicode_pair:
  assumes "is_high s1" and "is_low s2"
  shows "scanstring (92 # 117 # hex4 s1 @ 92 # 117 # hex4 s2 @ T) =
         append_char (65536 + ((s1 - 55296) * 1024 + (s2 - 56320))) (scanstring T)"
proof -
  have small: "s1 < 65536" "s2 < 65536"
    using assms by (simp_all add: is_high_def is_low_def)
  have next2: "take 2 (drop 4 (hex4 s1 @ 92 # 117 # hex4 s2 @ T)) = [92, 117]"
    by (simp add: drop_hex4 del: drop_append take_append)
  have second: "decode_uXXXX (drop 6 (hex4 s1 @ 92 # 117 # hex4 s2 @ T)) = Some s2"
    by (simp add: drop_hex4 decode_hex4 [OF small(2)] del: drop_append take_append)
  have rest: "drop 10 (hex4 s1 @ 92 # 117 # hex4 s2 @ T) = T"
    by (simp add: hex4_def)
  show ?thesis
    using assms
    by (simp add: decode_hex4 [OF small(1)] next2 second rest is_high_def is_low_def
        del: decode_uXXXX.simps drop_append take_append)
qed

lemma astral_units:
  assumes "65536 \<le> c" and "c < 1114112"
  shows "is_high (55296 + (c - 65536) div 1024 mod 1024)"
    and "is_low (56320 + (c - 65536) mod 1024)"
    and "65536 + ((55296 + (c - 65536) div 1024 mod 1024 - 55296) * 1024 +
           (56320 + (c - 65536) mod 1024 - 56320)) = c"
proof -
  have "(c - 65536) div 1024 < 1024"
    using assms by (simp add: less_mult_imp_div_less)
  then have top: "(c - 65536) div 1024 mod 1024 = (c - 65536) div 1024"
    by simp
  show "is_high (55296 + (c - 65536) div 1024 mod 1024)"
    using \<open>(c - 65536) div 1024 < 1024\<close> by (simp add: is_high_def top)
  show "is_low (56320 + (c - 65536) mod 1024)"
    by (simp add: is_low_def)
  have "(c - 65536) div 1024 * 1024 + (c - 65536) mod 1024 = c - 65536"
    by simp
  then show "65536 + ((55296 + (c - 65536) div 1024 mod 1024 - 55296) * 1024 +
           (56320 + (c - 65536) mod 1024 - 56320)) = c"
    using assms by (simp add: top)
qed

lemma escape_short_forms:
  "escape_ascii 92 = [92, 92]" "escape_ascii 34 = [92, 34]" "escape_ascii 8 = [92, 98]"
  "escape_ascii 12 = [92, 102]" "escape_ascii 10 = [92, 110]" "escape_ascii 13 = [92, 114]"
  "escape_ascii 9 = [92, 116]"
  by (simp_all add: escape_ascii_def)

lemma escape_plain_form:
  "32 \<le> l \<Longrightarrow> l \<le> 126 \<Longrightarrow> l \<noteq> 92 \<Longrightarrow> l \<noteq> 34 \<Longrightarrow> escape_ascii l = [l]"
  by (simp add: escape_ascii_def)

lemma escape_step:
  assumes "c < 1114112"
    and "is_high c \<and> take 2 T = [92, 117] \<longrightarrow>
         (\<exists>u. decode_uXXXX (drop 2 T) = Some u \<and> \<not> is_low u)"
  shows "scanstring (escape_ascii c @ T) = append_char c (scanstring T)"
proof -
  consider (short) "c = 92 \<or> c = 34 \<or> c = 8 \<or> c = 12 \<or> c = 10 \<or> c = 13 \<or> c = 9"
    | (plain) "32 \<le> c" "c \<le> 126" "c \<noteq> 92" "c \<noteq> 34"
    | (bmp) "c < 65536" "\<not> (32 \<le> c \<and> c \<le> 126)" "c \<noteq> 8" "c \<noteq> 12" "c \<noteq> 10"
        "c \<noteq> 13" "c \<noteq> 9"
    | (astral) "\<not> c < 65536"
    by blast
  then show ?thesis
  proof cases
    case short
    then show ?thesis
      by (auto simp add: escape_ascii_def backslash_def)
  next
    case plain
    then show ?thesis
      by (simp add: escape_ascii_def)
  next
    case bmp
    then have "escape_ascii c = 92 # 117 # hex4 c"
      by (auto simp add: escape_ascii_def)
    then show ?thesis
      using scan_unicode_single [OF bmp(1) assms(2)] by simp
  next
    case astral
    then have big: "65536 \<le> c"
      by simp
    then have "escape_ascii c =
        92 # 117 # hex4 (55296 + (c - 65536) div 1024 mod 1024) @
        92 # 117 # hex4 (56320 + (c - 65536) mod 1024)"
      by (simp add: escape_ascii_def Let_def)
    then show ?thesis
      using scan_unicode_pair [OF astral_units(1,2) [OF big assms(1)], of T]
        astral_units(3) [OF big assms(1)]
      by simp
  qed
qed

lemma next_unit:
  assumes "l < 1114112" and "take 2 (escape_ascii l @ T) = [92, 117]"
  shows "\<exists>u. decode_uXXXX (drop 2 (escape_ascii l @ T)) = Some u \<and> (is_low u \<longrightarrow> is_low l)"
proof -
  consider (short) "l = 92 \<or> l = 34 \<or> l = 8 \<or> l = 12 \<or> l = 10 \<or> l = 13 \<or> l = 9"
    | (plain) "32 \<le> l" "l \<le> 126" "l \<noteq> 92" "l \<noteq> 34"
    | (bmp) "l < 65536" "\<not> (32 \<le> l \<and> l \<le> 126)" "l \<noteq> 8" "l \<noteq> 12" "l \<noteq> 10"
        "l \<noteq> 13" "l \<noteq> 9"
    | (astral) "\<not> l < 65536"
    by blast
  then show ?thesis
  proof cases
    case short
    then have "take 2 (escape_ascii l @ T) \<noteq> [92, 117]"
      by (elim disjE) (simp_all add: escape_short_forms)
    with assms(2) show ?thesis by simp
  next
    case plain
    then have "take 2 (escape_ascii l @ T) \<noteq> [92, 117]"
      by (simp add: escape_plain_form)
    with assms(2) show ?thesis by simp
  next
    case bmp
    then have form: "escape_ascii l = 92 # 117 # hex4 l"
      by (auto simp add: escape_ascii_def)
    have "decode_uXXXX (drop 2 (escape_ascii l @ T)) = Some l"
      by (simp only: form append_Cons drop_Suc_Cons numeral_2_eq_2 drop_0 decode_hex4 [OF bmp(1)])
    then show ?thesis by simp
  next
    case astral
    then have big: "65536 \<le> l"
      by simp
    let ?s1 = "55296 + (l - 65536) div 1024 mod 1024"
    let ?s2 = "56320 + (l - 65536) mod 1024"
    have form: "escape_ascii l = 92 # 117 # (hex4 ?s1 @ 92 # 117 # hex4 ?s2)"
      using big by (simp add: escape_ascii_def Let_def)
    have high: "is_high ?s1"
      by (rule astral_units(1) [OF big assms(1)])
    then have small: "?s1 < 65536" and "\<not> is_low ?s1"
      by (simp_all add: is_high_def is_low_def)
    have "decode_uXXXX (drop 2 (escape_ascii l @ T)) = Some ?s1"
      by (simp only: form append_Cons append_assoc drop_Suc_Cons numeral_2_eq_2 drop_0
          decode_hex4 [OF small])
    with \<open>\<not> is_low ?s1\<close> show ?thesis by simp
  qed
qed

lemma scan_encoded:
  "valid_str s \<Longrightarrow> no_split_pair s \<Longrightarrow>
   scanstring (concat (map escape_ascii s) @ 34 # rest) = Some (s, rest)"
proof (induction s rule: no_split_pair.induct)
  case 1
  then show ?case by simp
next
  case (2 c)
  then have "c < 1114112"
    by (simp add: valid_str_def)
  then show ?case
    using escape_step [of c "34 # rest"] by simp
next
  case (3 h l s)
  let ?T = "escape_ascii l @ concat (map escape_ascii s) @ 34 # rest"
  have valid: "h < 1114112" "l < 1114112" "valid_str (l # s)"
    using "3.prems"(1) by (simp_all add: valid_str_def)
  have unpaired: "is_high h \<and> take 2 ?T = [92, 117] \<longrightarrow>
      (\<exists>u. decode_uXXXX (drop 2 ?T) = Some u \<and> \<not> is_low u)"
    using next_unit [OF valid(2), of "concat (map escape_ascii s) @ 34 # rest"] "3.prems"(2)
    by auto
  have "scanstring (concat (map escape_ascii (l # s)) @ 34 # rest) = Some (l # s, rest)"
    using "3.IH" valid(3) "3.prems"(2) by simp
  then show ?case
    using escape_step [OF valid(1) unpaired] by simp
qed

lemma json_loads_encoded:
  assumes "valid_str s" and "no_split_pair s"
  shows "json_loads_str (encode_basestring_ascii s) = Some s"
  using scan_encoded [OF assms, of "[]"]
  by (simp add: json_loads_str_def encode_basestring_ascii_def)

section \<open>The state store and the production client\<close>

text \<open>
  C7. The claim is that \<^verbatim>\<open>load_last_issue\<close> returns \<^verbatim>\<open>None\<close> and never raises,
  whatever the state file holds. The source catches \<^verbatim>\<open>JSONDecodeError\<close> to that
  end, but a file holding JSON that is not an object gets past it: on the text
  \<^verbatim>\<open>42\<close> the call \<^verbatim>\<open>data.get\<close> raises \<^verbatim>\<open>AttributeError\<close>, and with it the
  construction of the scheduler fails.
\<close>

theorem load_raises_on_bare_number:
  "load_last_issue (OracleStateStore_init ''state.json'') bare_number_file = Inl AttributeError \<and>
   OracleScheduler_init test_settings bare_number_file = Inl AttributeError"
  by (simp add: load_last_issue_def OracleStateStore_init_def bare_number_file_def
      OracleScheduler_init_def test_settings_def)

text \<open>
  C8, as claimed: whatever the issue id, a fresh state store over the same path loads
  exactly the issue id that was saved. An issue id made of a high surrogate followed by a
  low surrogate is written as two escapes, which \<^verbatim>\<open>json.loads\<close> reads as the one
  code point \<open>0x10000\<close>: the save succeeds and the load returns another string.
\<close>

theorem split_surrogate_pair_not_restored:
  "fst (save_last_issue (OracleStateStore_init ''state.json'') split_pair Written no_files) =
     Inr () \<and>
   load_last_issue (OracleStateStore_init ''state.json'')
     (snd (save_last_issue (OracleStateStore_init ''state.json'') split_pair Written no_files)) =
     Inr (JString [65536]) \<and>
   split_pair \<noteq> [65536]"
  by (simp add: save_last_issue_def load_last_issue_def OracleStateStore_init_def
      split_pair_def json_loads_str_def encode_basestring_ascii_def escape_ascii_def hex4_def
      hexdigit_def hexval_def)

text \<open>
  C8, amended. For every issue id in which no high surrogate is directly followed by a
  low surrogate (every string of Unicode scalar values is one), after a save that
  succeeded a fresh state store over the same path loads exactly that issue id.
\<close>

theorem saved_issue_survives_restart:
  assumes "save_last_issue store issue disk fs = (Inr (), fs')"
    and "valid_str issue" and "no_split_pair issue"
  shows "load_last_issue (OracleStateStore_init (path store)) fs' = Inr (JString issue)"
  using assms(1)
  by (auto simp add: save_last_issue_def load_last_issue_def OracleStateStore_init_def
      json_loads_encoded [OF assms(2,3)] split: write_outcome.splits)

theorem saved_issue_survives_restart_witness:
  "save_last_issue (OracleStateStore_init ''state.json'') (lit ''2025-002'') Written no_files =
     (Inr (), snd (save_last_issue (OracleStateStore_init ''state.json'') (lit ''2025-002'')
        Written no_files)) \<and>
   valid_str (lit ''2025-002'') \<and> no_split_pair (lit ''2025-002'') \<and>
   load_last_issue (OracleStateStore_init (path (OracleStateStore_init ''state.json'')))
     (snd (save_last_issue (OracleStateStore_init ''state.json'') (lit ''2025-002'')
        Written no_files)) =
     Inr (JString (lit ''2025-002''))"
proof -
  have saved:
    "save_last_issue (OracleStateStore_init ''state.json'') (lit ''2025-002'') Written no_files =
     (Inr (), snd (save_last_issue (OracleStateStore_init ''state.json'') (lit ''2025-002'')
        Written no_files))"
    by (simp add: save_last_issue_def Let_def)
  have wellformed: "valid_str (lit ''2025-002'')" "no_split_pair (lit ''2025-002'')"
    by (simp_all add: lit_def valid_str_def is_high_def)
  from saved_issue_survives_restart [OF saved wellformed] saved wellformed show ?thesis
    by simp
qed

text \<open>
  C10. \<^verbatim>\<open>LotteryClient.submit_result\<close> raises \<^verbatim>\<open>ValueError\<close> and sends no
  transaction whenever it is given a number of numbers other than six. The scheduler does
  not look at the count: on the Submit branch a result with another count is passed to
  the client, and the cycle ends with that \<^verbatim>\<open>ValueError\<close>, nothing sent, the
  scheduler and the files unchanged.
\<close>

theorem wrong_count_rejected_unsent:
  shows "(length nums \<noteq> 6 \<longrightarrow>
            LotteryClient_submit_result sync_submit_result pid nums = ([], Inl ValueError)) \<and>
         (fetch_latest c = Inr draw \<and> last_issue_id s \<noteq> JString (issue_id draw) \<and>
          get_current_period c = Inr snapshot \<and> status snapshot = CLOSED \<and>
          \<not> result_set snapshot \<and>
          submit_result c = LotteryClient_submit_result sync_submit_result \<and>
          length (numbers draw) \<noteq> 6 \<longrightarrow>
            attempt_submission c s fs =
              \<lparr>result = Inl ValueError, self = s, files = fs,
               events = [FetchLatest, GetCurrentPeriod,
                 Log INFO ''Submitting oracle result for period %s issue %s -> %s'',
                 SubmitResult (period_id snapshot) (sort (numbers draw))]\<rparr>)"
  by (simp add: LotteryClient_submit_result_def attempt_submission_def Let_def
      sorted_numbers_def)

theorem wrong_count_rejected_unsent_witness:
  "length [13, 9, 11 :: int] \<noteq> 6 \<and>
   LotteryClient_submit_result (\<lambda>pid nums. ([(pid, nums)], Inr ''0xabc'')) 2 [13, 9, 11] = ([], Inl ValueError) \<and>
   fetch_latest (production draw_of_three closed_snapshot ''0xabc'') = Inr draw_of_three \<and>
   last_issue_id (test_scheduler JNull) \<noteq> JString (issue_id draw_of_three) \<and>
   get_current_period (production draw_of_three closed_snapshot ''0xabc'') = Inr closed_snapshot \<and>
   status closed_snapshot = CLOSED \<and> \<not> result_set closed_snapshot \<and>
   submit_result (production draw_of_three closed_snapshot ''0xabc'') =
     LotteryClient_submit_result (\<lambda>pid nums. ([(pid, nums)], Inr ''0xabc'')) \<and>
   length (numbers draw_of_three) \<noteq> 6 \<and>
   attempt_submission (production draw_of_three closed_snapshot ''0xabc'')
       (test_scheduler JNull) no_files =
     \<lparr>result = Inl ValueError, self = test_scheduler JNull, files = no_files,
      events = [FetchLatest, GetCurrentPeriod,
        Log INFO ''Submitting oracle result for period %s issue %s -> %s'',
        SubmitResult 2 [9, 11, 13]]\<rparr>"
proof -
  have h: "fetch_latest (production draw_of_three closed_snapshot ''0xabc'') = Inr draw_of_three"
    "last_issue_id (test_scheduler JNull) \<noteq> JString (issue_id draw_of_three)"
    "get_current_period (production draw_of_three closed_snapshot ''0xabc'') = Inr closed_snapshot"
    "status closed_snapshot = CLOSED" "\<not> result_set closed_snapshot"
    "submit_result (production draw_of_three closed_snapshot ''0xabc'') =
       LotteryClient_submit_result (\<lambda>pid nums. ([(pid, nums)], Inr ''0xabc''))"
    "length (numbers draw_of_three) \<noteq> 6"
    by (simp_all add: production_def fakes_def test_scheduler_def closed_snapshot_def
        draw_of_three_def)
  have vals: "period_id closed_snapshot = 2" "sort (numbers draw_of_three) = [9, 11, 13]"
    by (simp_all add: closed_snapshot_def draw_of_three_def)
  from wrong_count_rejected_unsent [of "[13, 9, 11]" "\<lambda>pid nums. ([(pid, nums)], Inr ''0xabc'')" 2
         "production draw_of_three closed_snapshot ''0xabc''" draw_of_three
         "test_scheduler JNull" closed_snapshot no_files] h vals
  show ?thesis by simp
qed

section \<open>A save that fails after the chain write\<close>

text \<open>
  C9, as claimed: when the chain write succeeds and the save of the state file then
  fails, the cycle still reports the submission, and \<^verbatim>\<open>run_once\<close> returns the
  transaction hash. It does not: \<^verbatim>\<open>save_last_issue\<close> is called outside any
  \<^verbatim>\<open>try\<close>, so its exception leaves \<^verbatim>\<open>_attempt_submission\<close>. With the fakes
  of the test suite on a full disk, the submission is made and \<^verbatim>\<open>run_once\<close> raises
  \<^verbatim>\<open>OSError\<close>.
\<close>

theorem save_failure_masks_submission:
  "result (run_once full_disk (test_scheduler JNull) no_files) = Inl OSError \<and>
   submissions (events (run_once full_disk (test_scheduler JNull) no_files)) =
     [(2, [8, 9, 10, 11, 12, 13])]"
  by (simp add: run_once_def attempt_submission_def Let_def full_disk_def fakes_def
      test_scheduler_def draw_2025_002_def closed_snapshot_def sorted_numbers_def
      FakeClient_submit_result_def save_last_issue_def)

lemma save_failure_cycle:
  assumes "fetch_latest c = Inr draw"
    and "last_issue_id s \<noteq> JString (issue_id draw)"
    and "get_current_period c = Inr snapshot"
    and "status snapshot = CLOSED" and "\<not> result_set snapshot"
    and "submit_result c (period_id snapshot) (sorted_numbers draw) = (sent, Inr tx)"
    and "write_text c = WriteFailed residue"
  shows "attempt_submission c s fs =
     \<lparr>result = Inl OSError, self = s\<lparr>last_issue_id := JString (issue_id draw)\<rparr>,
      files = fs(path (state s) := residue),
      events = [FetchLatest, GetCurrentPeriod,
        Log INFO ''Submitting oracle result for period %s issue %s -> %s'',
        SubmitResult (period_id snapshot) (sorted_numbers draw)] @
        map broadcast_event sent @
        [Log INFO ''submitResult broadcast: %s'', WriteText (path (state s))]\<rparr>"
  using assms by (simp add: attempt_submission_def Let_def save_last_issue_def)

text \<open>
  C9, amended. When the chain write succeeds and the save of the state file then fails,
  the cycle raises the error of the save. \<^verbatim>\<open>run_once\<close> raises too, after closing
  the data source, and returns no transaction hash. \<^verbatim>\<open>run_forever\<close> catches the
  error, logs it as a failed iteration, sleeps and goes on with the next cycle. The
  submission stands (it was made, once), and the cached \<open>last_issue_id\<close> is already the
  issue id of the submitted result.
\<close>

theorem save_failure_raises:
  assumes "fetch_latest c = Inr draw"
    and "last_issue_id s \<noteq> JString (issue_id draw)"
    and "get_current_period c = Inr snapshot"
    and "status snapshot = CLOSED" and "\<not> result_set snapshot"
    and "submit_result c (period_id snapshot) (sorted_numbers draw) = (sent, Inr tx)"
    and "write_text c = WriteFailed residue"
  shows "result (attempt_submission c s fs) = Inl OSError \<and>
         isl (result (run_once c s fs)) \<and>
         (close c = None \<longrightarrow> result (run_once c s fs) = Inl OSError) \<and>
         last (events (run_once c s fs)) = Close \<and>
         submissions (events (attempt_submission c s fs)) =
           [(period_id snapshot, sorted_numbers draw)] \<and>
         last_issue_id (self (attempt_submission c s fs)) = JString (issue_id draw) \<and>
         (sleep c = None \<longrightarrow>
            result (run_forever_loop (c # cs) s fs) =
              result (run_forever_loop cs (self (attempt_submission c s fs))
                (files (attempt_submission c s fs))) \<and>
            events (run_forever_loop (c # cs) s fs) =
              events (attempt_submission c s fs) @
              [Log ERROR ''Oracle iteration failed: %s'',
               Sleep (poll_interval_seconds (settings s))] @
              events (run_forever_loop cs (self (attempt_submission c s fs))
                (files (attempt_submission c s fs))))"
proof -
  note cycle = save_failure_cycle [OF assms, of fs]
  have "result (attempt_submission c s fs) = Inl OSError"
    by (simp add: cycle)
  moreover have "isl (result (run_once c s fs))"
    by (simp add: run_once_def Let_def cycle split: option.split)
  moreover have "close c = None \<longrightarrow> result (run_once c s fs) = Inl OSError"
    by (simp add: run_once_def Let_def cycle)
  moreover have "last (events (run_once c s fs)) = Close"
    by (simp add: run_once_def Let_def split: option.split)
  moreover have "submissions (events (attempt_submission c s fs)) =
      [(period_id snapshot, sorted_numbers draw)]"
    by (simp add: cycle submissions_append submissions_broadcasts)
  moreover have "last_issue_id (self (attempt_submission c s fs)) = JString (issue_id draw)"
    by (simp add: cycle)
  moreover have "sleep c = None \<longrightarrow>
      result (run_forever_loop (c # cs) s fs) =
        result (run_forever_loop cs (self (attempt_submission c s fs))
          (files (attempt_submission c s fs))) \<and>
      events (run_forever_loop (c # cs) s fs) =
        events (attempt_submission c s fs) @
        [Log ERROR ''Oracle iteration failed: %s'',
         Sleep (poll_interval_seconds (settings s))] @
        events (run_forever_loop cs (self (attempt_submission c s fs))
          (files (attempt_submission c s fs)))"
    by (simp add: cycle Let_def)
  ultimately show ?thesis by blast
qed

theorem save_failure_raises_witness:
  "fetch_latest full_disk = Inr draw_2025_002 \<and>
   last_issue_id (test_scheduler JNull) \<noteq> JString (issue_id draw_2025_002) \<and>
   get_current_period full_disk = Inr closed_snapshot \<and>
   status closed_snapshot = CLOSED \<and> \<not> result_set closed_snapshot \<and>
   submit_result full_disk (period_id closed_snapshot) (sorted_numbers draw_2025_002) =
     ([], Inr ''0xabc'') \<and>
   write_text full_disk = WriteFailed NotJson \<and> close full_disk = None \<and>
   sleep full_disk = None \<and>
   result (attempt_submission full_disk (test_scheduler JNull) no_files) = Inl OSError \<and>
   result (run_once full_disk (test_scheduler JNull) no_files) = Inl OSError \<and>
   last_issue_id (self (attempt_submission full_disk (test_scheduler JNull) no_files)) =
     JString (lit ''2025-002'') \<and>
   result (run_forever_loop [full_disk] (test_scheduler JNull) no_files) = Inr Polling"
proof -
  have h: "fetch_latest full_disk = Inr draw_2025_002"
    "last_issue_id (test_scheduler JNull) \<noteq> JString (issue_id draw_2025_002)"
    "get_current_period full_disk = Inr closed_snapshot"
    "status closed_snapshot = CLOSED" "\<not> result_set closed_snapshot"
    "submit_result full_disk (period_id closed_snapshot) (sorted_numbers draw_2025_002) =
       ([], Inr ''0xabc'')"
    "write_text full_disk = WriteFailed NotJson"
    by (simp_all add: full_disk_def fakes_def test_scheduler_def closed_snapshot_def
        FakeClient_submit_result_def)
  have quiet: "close full_disk = None" "sleep full_disk = None"
    by (simp_all add: full_disk_def fakes_def)
  have issue: "issue_id draw_2025_002 = lit ''2025-002''"
    by (simp add: draw_2025_002_def)
  from save_failure_raises [OF h, of no_files "[]"] h quiet issue
  show ?thesis by (simp del: run_forever_loop.simps(2))
qed

section \<open>The polling loop\<close>

text \<open>
  The loop keeps the settings it started with, a run that is still polling has started
  one cycle per entry of its script, and a script can be cut at any point the loop has
  not left: the rest runs from the scheduler and the files that the first part left.
\<close>

lemma attempt_settings: "settings (self (attempt_submission c s fs)) = settings s"
  by (simp add: attempt_submission_def Let_def split: sum.split prod.split)

lemma cycles_append: "cycles (xs @ ys) = cycles xs + cycles ys"
  by (induction xs rule: cycles.induct) simp_all

lemma cycles_broadcasts: "cycles (map broadcast_event sent) = 0"
  by (induction sent) auto

lemma attempt_cycles: "cycles (events (attempt_submission c s fs)) = 1"
  by (simp add: attempt_submission_def Let_def cycles_append cycles_broadcasts
      split: sum.split prod.split)

lemma loop_append:
  "result (run_forever_loop pre s fs) = Inr Polling \<Longrightarrow>
   run_forever_loop (pre @ rest) s fs =
     (run_forever_loop rest (self (run_forever_loop pre s fs)) (files (run_forever_loop pre s fs)))
       \<lparr>events := events (run_forever_loop pre s fs) @
          events (run_forever_loop rest (self (run_forever_loop pre s fs))
            (files (run_forever_loop pre s fs)))\<rparr>"
proof (induction pre arbitrary: s fs)
  case Nil
  then show ?case by simp
next
  case (Cons c pre)
  then show ?case
    by (auto simp add: Let_def split: sum.splits option.splits if_splits)
qed

lemma loop_settings:
  "settings (self (run_forever_loop cs s fs)) = settings s"
proof (induction cs arbitrary: s fs)
  case Nil
  then show ?case by simp
next
  case (Cons c cs)
  then show ?case
    by (auto simp add: Let_def attempt_settings split: sum.splits option.splits)
qed

lemma polling_cycles:
  "result (run_forever_loop cs s fs) = Inr Polling \<Longrightarrow>
   cycles (events (run_forever_loop cs s fs)) = length cs"
proof (induction cs arbitrary: s fs)
  case Nil
  then show ?case by simp
next
  case (Cons c cs)
  then show ?case
    by (auto simp add: Let_def cycles_append attempt_cycles
        split: sum.splits option.splits if_splits)
qed

lemma skip_returns_none:
  assumes "fetch_latest c = Inr draw"
    and "last_issue_id s = JString (issue_id draw) \<or>
         (get_current_period c = Inr snapshot \<and>
          (status snapshot \<noteq> CLOSED \<or> result_set snapshot))"
  shows "result (attempt_submission c s fs) = Inr None"
  using assms by (auto simp add: attempt_submission_def)

lemma exit_after_skip:
  assumes "submit_only_once (settings s)"
    and "result (attempt_submission c s fs) = Inr None"
  shows "run_forever_loop (c # cs) s fs =
     \<lparr>result = Inr Exited, self = self (attempt_submission c s fs),
      files = files (attempt_submission c s fs),
      events = events (attempt_submission c s fs) @
        [Log INFO ''Submit-once flag set; exiting loop.'']\<rparr>"
  using assms by (simp add: Let_def)

lemma run_forever_unfold:
  "result (run_forever script s fs) = result (run_forever_loop script s fs)"
  "self (run_forever script s fs) = self (run_forever_loop script s fs)"
  "files (run_forever script s fs) = files (run_forever_loop script s fs)"
  "events (run_forever script s fs) =
     Log INFO ''Oracle loop started; poll interval=%s'' # events (run_forever_loop script s fs)"
  by (simp_all add: run_forever_def Let_def)

text \<open>
  C1, as claimed: with \<open>submit_only_once\<close> the loop goes on while cycles yield
  Skip-Duplicate and exits after the first cycle with another decision, Submit included.
  The source tests the truth value of what the cycle returned, and every Skip returns
  \<^verbatim>\<open>None\<close>. A scheduler that has cached the fetched issue id leaves the loop after
  its first cycle, a Skip-Duplicate: the second entry of the script is never used. And a
  cycle that submits returns a \<^verbatim>\<open>SchedulerResult\<close>, which is true: the loop sleeps
  and polls again.
\<close>

theorem duplicate_cycle_ends_loop:
  "run_forever
      [fakes draw_2025_002 closed_snapshot ''0xabc'', fakes draw_2025_002 closed_snapshot ''0xabc'']
      (test_scheduler (JString (lit ''2025-002''))) no_files =
     \<lparr>result = Inr Exited, self = test_scheduler (JString (lit ''2025-002'')), files = no_files,
      events = [Log INFO ''Oracle loop started; poll interval=%s'',
        FetchLatest, Log DEBUG ''Issue %s already submitted; skipping.'',
        Log INFO ''Submit-once flag set; exiting loop.'']\<rparr> \<and>
   result (run_forever [fakes draw_2025_002 closed_snapshot ''0xabc'']
      (test_scheduler JNull) no_files) = Inr Polling \<and>
   events (run_forever [fakes draw_2025_002 closed_snapshot ''0xabc'']
      (test_scheduler JNull) no_files) =
     [Log INFO ''Oracle loop started; poll interval=%s'',
      FetchLatest, GetCurrentPeriod,
      Log INFO ''Submitting oracle result for period %s issue %s -> %s'',
      SubmitResult 2 [8, 9, 10, 11, 12, 13],
      Log INFO ''submitResult broadcast: %s'', WriteText ''state.json'', Sleep 5]"
  by (simp add: run_forever_def attempt_submission_def Let_def fakes_def test_scheduler_def
      test_settings_def draw_2025_002_def closed_snapshot_def sorted_numbers_def
      FakeClient_submit_result_def save_last_issue_def OracleStateStore_init_def)

text \<open>
  C1, amended. With \<open>submit_only_once\<close>, a loop that has not ended before exits after
  the first cycle whose decision is a Skip of any kind: Skip-Duplicate, Skip-NotReady or
  Skip-AlreadySet. It logs that it exits, and it starts no further cycle: the number of
  cycles run is the number of earlier cycles plus one, whatever the script holds next.
\<close>

theorem submit_once_loop_exits_after_skip:
  assumes "submit_only_once (settings s)"
    and "result (run_forever earlier s fs) = Inr Polling"
    and "fetch_latest c = Inr draw"
    and "last_issue_id (self (run_forever earlier s fs)) = JString (issue_id draw) \<or>
         (get_current_period c = Inr snapshot \<and>
          (status snapshot \<noteq> CLOSED \<or> result_set snapshot))"
  shows "result (run_forever (earlier @ c # later) s fs) = Inr Exited \<and>
         cycles (events (run_forever (earlier @ c # later) s fs)) = length earlier + 1 \<and>
         last (events (run_forever (earlier @ c # later) s fs)) =
           Log INFO ''Submit-once flag set; exiting loop.''"
proof -
  let ?r = "run_forever_loop earlier s fs"
  have polling: "result ?r = Inr Polling"
    using assms(2) by (simp add: run_forever_unfold)
  have decision: "last_issue_id (self ?r) = JString (issue_id draw) \<or>
      (get_current_period c = Inr snapshot \<and>
       (status snapshot \<noteq> CLOSED \<or> result_set snapshot))"
    using assms(4) by (simp add: run_forever_unfold)
  have once: "submit_only_once (settings (self ?r))"
    using assms(1) by (simp add: loop_settings)
  have none: "result (attempt_submission c (self ?r) (files ?r)) = Inr None"
    using assms(3) decision by (rule skip_returns_none)
  note step = exit_after_skip [OF once none, of later]
  note whole = loop_append [OF polling, of "c # later"]
  have "result (run_forever (earlier @ c # later) s fs) = Inr Exited"
    by (simp only: run_forever_unfold whole step) simp
  moreover have "cycles (events (run_forever (earlier @ c # later) s fs)) =
      length earlier + 1"
    by (simp only: run_forever_unfold whole step)
      (simp add: cycles_append polling_cycles [OF polling] attempt_cycles)
  moreover have "last (events (run_forever (earlier @ c # later) s fs)) =
      Log INFO ''Submit-once flag set; exiting loop.''"
    by (simp only: run_forever_unfold whole step) simp
  ultimately show ?thesis by blast
qed

theorem submit_once_loop_exits_after_skip_witness:
  "submit_only_once (settings (test_scheduler JNull)) \<and>
   result (run_forever [feed_down] (test_scheduler JNull) no_files) = Inr Polling \<and>
   fetch_latest (fakes draw_2025_001 selling_snapshot ''0x123'') = Inr draw_2025_001 \<and>
   get_current_period (fakes draw_2025_001 selling_snapshot ''0x123'') = Inr selling_snapshot \<and>
   status selling_snapshot \<noteq> CLOSED \<and>
   result (run_forever
      [feed_down, fakes draw_2025_001 selling_snapshot ''0x123'',
       fakes draw_2025_002 closed_snapshot ''0xabc'']
      (test_scheduler JNull) no_files) = Inr Exited \<and>
   cycles (events (run_forever
      [feed_down, fakes draw_2025_001 selling_snapshot ''0x123'',
       fakes draw_2025_002 closed_snapshot ''0xabc'']
      (test_scheduler JNull) no_files)) = 2"
proof -
  have once: "submit_only_once (settings (test_scheduler JNull))"
    by (simp add: test_scheduler_def test_settings_def)
  have polling: "result (run_forever [feed_down] (test_scheduler JNull) no_files) = Inr Polling"
    by (simp add: run_forever_def attempt_submission_def Let_def feed_down_def fakes_def)
  have fetched: "fetch_latest (fakes draw_2025_001 selling_snapshot ''0x123'') = Inr draw_2025_001"
    by (simp add: fakes_def)
  have period:
    "get_current_period (fakes draw_2025_001 selling_snapshot ''0x123'') = Inr selling_snapshot"
    "status selling_snapshot \<noteq> CLOSED"
    by (simp_all add: fakes_def selling_snapshot_def)
  then have skip:
    "last_issue_id (self (run_forever [feed_down] (test_scheduler JNull) no_files)) =
       JString (issue_id draw_2025_001) \<or>
     (get_current_period (fakes draw_2025_001 selling_snapshot ''0x123'') = Inr selling_snapshot \<and>
      (status selling_snapshot \<noteq> CLOSED \<or> result_set selling_snapshot))"
    by blast
  from submit_once_loop_exits_after_skip [OF once polling fetched skip,
         of "[fakes draw_2025_002 closed_snapshot ''0xabc'']"]
       once polling fetched period
  show ?thesis by simp
qed

end
